theory Spec2Isabelle
  imports Main "HOL-Library.Sublist" "HOL-Library.AList"
begin

section \<open>Python values, dictionaries and exceptions\<close>

text \<open>
  The router of \<^verbatim>\<open>src/models/router.py\<close> works on what \<^verbatim>\<open>yaml.safe_load\<close> and
  \<^verbatim>\<open>json.loads\<close> return: nested dictionaries, lists, strings and numbers.  A \<open>str\<close> is a
  \<open>string\<close>, one \<open>char\<close> for each code point (so \<open>length\<close> is Python's \<open>len\<close>; the
  256 values of \<open>char\<close> are read as the code points below 256).  A \<open>float\<close> is kept as
  a mantissa and a binary exponent; the router never computes with a number and never
  compares two of them.  A \<open>dict\<close> is an association list in insertion order, read with
  \<open>map_of\<close>.
\<close>

datatype pyval =
    PNone
  | PBool bool
  | PInt int
  | PFloat int int
  | PStr string
  | PList "pyval list"
  | PDict "(string \<times> pyval) list"

text \<open>
  The exceptions that the modelled code can raise.  \<^verbatim>\<open>_get_model_config\<close> raises
  \<^verbatim>\<open>ValueError(f"Model not found: {model_id}")\<close>, which the specification calls
  \<open>ModelNotFound\<close>.
\<close>

datatype error =
    ValueError string
  | JSONDecodeError
  | TypeError
  | KeyError
  | IndexError
  | AttributeError

abbreviation ModelNotFound :: "string \<Rightarrow> error" where
  "ModelNotFound model_id \<equiv> ValueError (''Model not found: '' @ model_id)"

text \<open>\<^verbatim>\<open>d.get(k, default)\<close>\<close>

definition dict_get :: "('k \<times> 'v) list \<Rightarrow> 'k \<Rightarrow> 'v \<Rightarrow> 'v" where
  "dict_get d k dflt = (case map_of d k of None \<Rightarrow> dflt | Some v \<Rightarrow> v)"

text \<open>
  The dictionary display \<^verbatim>\<open>{<items of base>, **d}\<close>: the items of \<open>d\<close> are stored one
  after the other, a key that is already there keeps its place and takes the new value.
\<close>

definition dict_spread :: "('k \<times> 'v) list \<Rightarrow> ('k \<times> 'v) list \<Rightarrow> ('k \<times> 'v) list" where
  "dict_spread base d = foldl (\<lambda>acc (k, v). AList.update k v acc) base d"


section \<open>Task classifier: \<^verbatim>\<open>ModelRouter.detect_task_type\<close>\<close>

text \<open>
  \<^verbatim>\<open>str.lower\<close> on the code points below 256: the ASCII capitals and the Latin-1
  capitals (\<open>0xC0\<close> to \<open>0xDE\<close> without the multiplication sign \<open>0xD7\<close>) move up by 32,
  every other character stays.
\<close>

definition lower_char :: "char \<Rightarrow> char" where
  "lower_char c =
     (let n = (of_char c :: nat) in
      if (65 \<le> n \<and> n \<le> 90) \<or> (192 \<le> n \<and> n \<le> 222 \<and> n \<noteq> 215)
      then char_of (n + 32) else c)"

definition lower :: "string \<Rightarrow> string" where
  "lower s = map lower_char s"

definition code_keywords :: "string list" where
  "code_keywords =
     [''code'', ''function'', ''bug'', ''error'', ''python'', ''javascript'', ''typescript'',
      ''html'', ''css'', ''sql'', ''api'', ''database'']"

definition math_keywords :: "string list" where
  "math_keywords =
     [''calculate'', ''math'', ''solve'', ''equation'', ''logic'', ''reasoning'', ''proof'',
      ''algorithm'']"

definition creative_keywords :: "string list" where
  "creative_keywords =
     [''write'', ''story'', ''poem'', ''creative'', ''essay'', ''blog'', ''article'', ''draft'']"

text \<open>
  \<^verbatim>\<open>any(kw in message_lower for kw in keywords)\<close>; Python's \<^verbatim>\<open>kw in s\<close> on strings is
  the contiguous-substring test \<open>sublist kw s\<close>.
\<close>

definition any_keyword :: "string list \<Rightarrow> string \<Rightarrow> bool" where
  "any_keyword keywords message_lower = list_ex (\<lambda>kw. sublist kw message_lower) keywords"

definition detect_task_type :: "string \<Rightarrow> string" where
  "detect_task_type message =
     (let message_lower = lower message in
      if any_keyword code_keywords message_lower then ''coding''
      else if any_keyword math_keywords message_lower then ''reasoning''
      else if any_keyword creative_keywords message_lower then ''creative_writing''
      else if length message > 4000 then ''long_context''
      else if length message < 50 \<and> sublist ''?'' message then ''fast_responses''
      else ''default'')"


section \<open>Provider registry: \<^verbatim>\<open>ModelRouter._get_model_config\<close>\<close>

text \<open>
  The configuration is the already loaded YAML document.  A provider has its endpoint,
  the name of the environment variable of its key, and (optionally: the code reads it
  with \<^verbatim>\<open>.get("models", {})\<close>) a catalog from model key to model entry.  A model entry is
  an open dictionary: the code reads its \<^verbatim>\<open>"id"\<close> and spreads all of its items into the
  result.
\<close>

type_synonym model_config = "(string \<times> pyval) list"

record provider_config =
  base_url :: string
  api_key_env :: string
  models :: "(string \<times> model_config) list option"

text \<open>
  The dictionary that lookup returns holds the provider's own configuration under
  \<^verbatim>\<open>"provider_config"\<close> next to plain values.
\<close>

datatype field = Plain pyval | ProviderConfig provider_config

type_synonym resolved = "(string \<times> field) list"

text \<open>The attributes that \<^verbatim>\<open>__init__\<close> sets on the router.\<close>

record router =
  default_model :: string
  providers :: "(string \<times> provider_config) list"
  task_routing :: "(string \<times> (string \<times> string) list) list"
  auto_switch :: "(string \<times> bool) list"

text \<open>\<^verbatim>\<open>provider.get("models", {})\<close>\<close>

definition catalog :: "provider_config \<Rightarrow> (string \<times> model_config) list" where
  "catalog p = (case models p of None \<Rightarrow> [] | Some ms \<Rightarrow> ms)"

text \<open>
  \<^verbatim>\<open>{"provider": name, "provider_config": self.providers[name], **config}\<close>
\<close>

definition resolved_config :: "string \<Rightarrow> provider_config \<Rightarrow> model_config \<Rightarrow> resolved" where
  "resolved_config name p config =
     dict_spread [(''provider'', Plain (PStr name)), (''provider_config'', ProviderConfig p)]
       (map (\<lambda>(k, v). (k, Plain v)) config)"

text \<open>
  The block under \<^verbatim>\<open># Check Moonshot\<close>: \<open>None\<close> when the block falls through.
\<close>

definition check_moonshot :: "router \<Rightarrow> string \<Rightarrow> resolved option" where
  "check_moonshot self model_id =
     (case map_of (providers self) ''moonshot'' of
        None \<Rightarrow> None
      | Some p \<Rightarrow>
          (case map_of (catalog p) model_id of
             None \<Rightarrow> None
           | Some config \<Rightarrow> Some (resolved_config ''moonshot'' p config)))"

text \<open>
  The block under \<^verbatim>\<open># Check OpenRouter\<close>: the first item of the catalog, in its order,
  whose \<^verbatim>\<open>"id"\<close> value or whose key equals \<open>model_id\<close>.
\<close>

definition check_openrouter :: "router \<Rightarrow> string \<Rightarrow> resolved option" where
  "check_openrouter self model_id =
     (case map_of (providers self) ''openrouter'' of
        None \<Rightarrow> None
      | Some p \<Rightarrow>
          (case find (\<lambda>(key, config). map_of config ''id'' = Some (PStr model_id) \<or> key = model_id)
                  (catalog p) of
             None \<Rightarrow> None
           | Some (key, config) \<Rightarrow> Some (resolved_config ''openrouter'' p config)))"

definition get_model_config :: "router \<Rightarrow> string \<Rightarrow> error + resolved" where
  "get_model_config self model_id =
     (case check_moonshot self model_id of
        Some r \<Rightarrow> Inr r
      | None \<Rightarrow>
          (case check_openrouter self model_id of
             Some r \<Rightarrow> Inr r
           | None \<Rightarrow> Inl (ModelNotFound model_id)))"


section \<open>Model selection: \<^verbatim>\<open>ModelRouter.select_model\<close>\<close>

text \<open>The test \<^verbatim>\<open>if preferred_model:\<close> on an \<^verbatim>\<open>Optional[str]\<close>.\<close>

fun truthy :: "string option \<Rightarrow> bool" where
  "truthy None = False"
| "truthy (Some s) = (s \<noteq> [])"

text \<open>
  \<^verbatim>\<open>routing = self.task_routing.get(task_type, {})\<close> followed by
  \<^verbatim>\<open>routing.get("primary", self.default_model)\<close> and
  \<^verbatim>\<open>routing.get("fallback", self.default_model)\<close>.
\<close>

definition primary_id :: "router \<Rightarrow> string \<Rightarrow> string" where
  "primary_id self task_type =
     dict_get (dict_get (task_routing self) task_type []) ''primary'' (default_model self)"

definition fallback_id :: "router \<Rightarrow> string \<Rightarrow> string" where
  "fallback_id self task_type =
     dict_get (dict_get (task_routing self) task_type []) ''fallback'' (default_model self)"

text \<open>
  The three branches of \<^verbatim>\<open>select_model\<close> in the order of the source; \<open>the\<close> is applied
  to the override only where \<open>truthy\<close> has found it to be \<open>Some\<close>.  The bare
  \<^verbatim>\<open>except:\<close> around the primary lookup catches whatever that lookup raises.
\<close>

definition select_model :: "router \<Rightarrow> string \<Rightarrow> string option \<Rightarrow> error + resolved" where
  "select_model self message preferred_model =
     (if truthy preferred_model then get_model_config self (the preferred_model)
      else if \<not> dict_get (auto_switch self) ''enabled'' True then
        get_model_config self (default_model self)
      else
        (let task_type = detect_task_type message in
         case get_model_config self (primary_id self task_type) of
           Inr r \<Rightarrow> Inr r
         | Inl _ \<Rightarrow> get_model_config self (fallback_id self task_type)))"


section \<open>Dispatch: \<^verbatim>\<open>ModelRouter.chat_completion\<close>\<close>





section \<open>Stream decoding: \<^verbatim>\<open>ModelRouter._extract_content\<close> and the streaming loops\<close>

text \<open>
  The three accesses of \<^verbatim>\<open>_extract_content\<close>, each with the exception Python raises
  when the value has the wrong shape.  \<^verbatim>\<open>x["choices"]\<close>:
\<close>

fun subscript_key :: "pyval \<Rightarrow> string \<Rightarrow> error + pyval" where
  "subscript_key (PDict d) k = (case map_of d k of None \<Rightarrow> Inl KeyError | Some v \<Rightarrow> Inr v)"
| "subscript_key _ k = Inl TypeError"

text \<open>
  \<^verbatim>\<open>x[0]\<close>: the first element of a list, the first character of a string (as a string of
  length one); a dictionary read from JSON has string keys only, so \<open>0\<close> is a missing
  key.
\<close>

fun subscript_0 :: "pyval \<Rightarrow> error + pyval" where
  "subscript_0 (PList []) = Inl IndexError"
| "subscript_0 (PList (x # xs)) = Inr x"
| "subscript_0 (PStr []) = Inl IndexError"
| "subscript_0 (PStr (c # cs)) = Inr (PStr [c])"
| "subscript_0 (PDict d) = Inl KeyError"
| "subscript_0 _ = Inl TypeError"

text \<open>\<^verbatim>\<open>x.get(k, default)\<close>: only a dictionary has the method.\<close>

fun method_get :: "pyval \<Rightarrow> string \<Rightarrow> pyval \<Rightarrow> error + pyval" where
  "method_get (PDict d) k dflt = Inr (dict_get d k dflt)"
| "method_get _ k dflt = Inl AttributeError"

text \<open>
  The body of the \<^verbatim>\<open>try\<close> block.  \<^verbatim>\<open>json.loads\<close> is the library's parser and is a
  parameter: \<open>loads data = None\<close> when it raises.
\<close>

definition extract_content_try :: "(string \<Rightarrow> pyval option) \<Rightarrow> string \<Rightarrow> error + pyval" where
  "extract_content_try loads data =
     (case loads data of
        None \<Rightarrow> Inl JSONDecodeError
      | Some parsed \<Rightarrow>
          (case subscript_key parsed ''choices'' of
             Inl e \<Rightarrow> Inl e
           | Inr choices \<Rightarrow>
               (case subscript_0 choices of
                  Inl e \<Rightarrow> Inl e
                | Inr choice \<Rightarrow>
                    (case method_get choice ''delta'' (PDict []) of
                       Inl e \<Rightarrow> Inl e
                     | Inr delta \<Rightarrow> method_get delta ''content'' (PStr '''')))))"

text \<open>The bare \<^verbatim>\<open>except:\<close> turns every exception into the empty string.\<close>

definition extract_content :: "(string \<Rightarrow> pyval option) \<Rightarrow> string \<Rightarrow> pyval" where
  "extract_content loads data =
     (case extract_content_try loads data of Inl e \<Rightarrow> PStr '''' | Inr v \<Rightarrow> v)"

text \<open>
  The loop over \<^verbatim>\<open>response.aiter_lines()\<close> in \<^verbatim>\<open>_call_moonshot\<close> and, word for word
  again, in \<^verbatim>\<open>_call_openrouter\<close>: the fragments yielded for the lines received.
  \<^verbatim>\<open>line.startswith("data: ")\<close> is \<open>prefix\<close>, \<^verbatim>\<open>line[6:]\<close> is \<open>drop 6\<close>, \<^verbatim>\<open>break\<close> ends the
  recursion.
\<close>

fun call_moonshot_stream :: "(string \<Rightarrow> pyval option) \<Rightarrow> string list \<Rightarrow> pyval list" where
  "call_moonshot_stream loads [] = []"
| "call_moonshot_stream loads (line # lines) =
     (if prefix ''data: '' line then
        (let data = drop 6 line in
         if data = ''[DONE]'' then []
         else extract_content loads data # call_moonshot_stream loads lines)
      else call_moonshot_stream loads lines)"

fun call_openrouter_stream :: "(string \<Rightarrow> pyval option) \<Rightarrow> string list \<Rightarrow> pyval list" where
  "call_openrouter_stream loads [] = []"
| "call_openrouter_stream loads (line # lines) =
     (if prefix ''data: '' line then
        (let data = drop 6 line in
         if data = ''[DONE]'' then []
         else extract_content loads data # call_openrouter_stream loads lines)
      else call_openrouter_stream loads lines)"

text \<open>
  The specification's reading of a payload, for comparison with \<open>extract_content\<close>: the
  parsed payload is an object whose \<^verbatim>\<open>choices\<close> is an array, the first element of it an
  object, its \<^verbatim>\<open>delta\<close> an object with a \<^verbatim>\<open>content\<close> field.
\<close>

definition spec_content_field :: "pyval \<Rightarrow> pyval option" where
  "spec_content_field parsed =
     (case parsed of
        PDict obj \<Rightarrow>
          (case map_of obj ''choices'' of
             Some (PList (PDict choice # rest)) \<Rightarrow>
               (case map_of choice ''delta'' of
                  Some (PDict delta) \<Rightarrow> map_of delta ''content''
                | _ \<Rightarrow> None)
           | _ \<Rightarrow> None)
      | _ \<Rightarrow> None)"


section \<open>Example configurations\<close>

text \<open>
  Two providers that register the same catalog key \<^verbatim>\<open>shared\<close>; the configuration lists
  \<^verbatim>\<open>openrouter\<close> first and \<^verbatim>\<open>moonshot\<close> second.
\<close>

definition openrouter_shared :: provider_config where
  "openrouter_shared =
     \<lparr>base_url = ''https://openrouter.ai/api/v1'', api_key_env = ''OPENROUTER_API_KEY'',
      models = Some [(''shared'', [(''id'', PStr ''vendor/model-a'')])]\<rparr>"

definition moonshot_shared :: provider_config where
  "moonshot_shared =
     \<lparr>base_url = ''https://api.moonshot.ai/v1'', api_key_env = ''MOONSHOT_API_KEY'',
      models = Some [(''shared'', [(''id'', PStr ''moonshot-v1-8k'')])]\<rparr>"

definition shared_key_router :: router where
  "shared_key_router =
     \<lparr>default_model = ''shared'',
      providers = [(''openrouter'', openrouter_shared), (''moonshot'', moonshot_shared)],
      task_routing = [], auto_switch = []\<rparr>"

text \<open>The same configuration with the two providers listed the other way round.\<close>

definition shared_key_router_swapped :: router where
  "shared_key_router_swapped =
     \<lparr>default_model = ''shared'',
      providers = [(''moonshot'', moonshot_shared), (''openrouter'', openrouter_shared)],
      task_routing = [], auto_switch = []\<rparr>"

text \<open>
  A configuration with a third provider, and a \<^verbatim>\<open>moonshot\<close> model whose catalog key
  \<^verbatim>\<open>kimi\<close> differs from its model identifier.
\<close>

definition acme_provider :: provider_config where
  "acme_provider =
     \<lparr>base_url = ''https://api.acme.example/v1'', api_key_env = ''ACME_API_KEY'',
      models = Some [(''acme-small'', [(''id'', PStr ''acme/small-1'')])]\<rparr>"

definition moonshot_kimi :: provider_config where
  "moonshot_kimi =
     \<lparr>base_url = ''https://api.moonshot.ai/v1'', api_key_env = ''MOONSHOT_API_KEY'',
      models = Some [(''kimi'', [(''id'', PStr ''moonshot-v1-128k''), (''max_tokens'', PInt 8192)])]\<rparr>"

definition openrouter_claude :: provider_config where
  "openrouter_claude =
     \<lparr>base_url = ''https://openrouter.ai/api/v1'', api_key_env = ''OPENROUTER_API_KEY'',
      models = Some [(''sonnet'', [(''id'', PStr ''anthropic/claude-sonnet'')])]\<rparr>"

definition three_provider_router :: router where
  "three_provider_router =
     \<lparr>default_model = ''kimi'',
      providers = [(''moonshot'', moonshot_kimi), (''openrouter'', openrouter_claude),
                   (''acme'', acme_provider)],
      task_routing = [(''coding'', [(''primary'', ''gpt-coder''), (''fallback'', ''sonnet'')]),
                      (''reasoning'', [(''primary'', ''o-reasoner''), (''fallback'', ''o-mini'')])],
      auto_switch = [(''enabled'', True)]\<rparr>"

text \<open>The same configuration with automatic switching turned off.\<close>

definition static_router :: router where
  "static_router = three_provider_router\<lparr>auto_switch := [(''enabled'', False)]\<rparr>"




text \<open>
  A stand-in for \<^verbatim>\<open>json.loads\<close> on three payloads: a chunk with content, a chunk whose
  delta has no content, and everything else unparseable.
\<close>

definition sample_loads :: "string \<Rightarrow> pyval option" where
  "sample_loads data =
     (if data = ''{\"choices\":[{\"delta\":{\"content\":\"Hi\"}}]}'' then
        Some (PDict [(''choices'', PList [PDict [(''delta'', PDict [(''content'', PStr ''Hi'')])]])])
      else if data = ''{\"choices\":[{\"delta\":{\"role\":\"assistant\"}}]}'' then
        Some (PDict [(''choices'', PList [PDict [(''delta'', PDict [(''role'', PStr ''assistant'')])]])])
      else None)"


section \<open>Results\<close>

subsection \<open>The task classifier\<close>

lemma lower_append: "lower (a @ b) = lower a @ lower b"
  by (simp add: lower_def)

lemma any_keyword_iff: "any_keyword kws s \<longleftrightarrow> (\<exists>kw\<in>set kws. sublist kw s)"
  by (simp add: any_keyword_def list_ex_iff)

lemma sublist_single: "sublist [c] s \<longleftrightarrow> c \<in> set s"
  by (auto simp: sublist_def in_set_conv_decomp)

lemma detect_task_type_cases:
  "detect_task_type message =
      (if \<exists>kw\<in>set code_keywords. sublist kw (lower message) then ''coding''
       else if \<exists>kw\<in>set math_keywords. sublist kw (lower message) then ''reasoning''
       else if \<exists>kw\<in>set creative_keywords. sublist kw (lower message) then ''creative_writing''
       else if 4000 < length message then ''long_context''
       else if length message < 50 \<and> CHR ''?'' \<in> set message then ''fast_responses''
       else ''default'')"
  by (simp add: detect_task_type_def any_keyword_iff sublist_single Let_def)

lemma detect_task_type_range:
  "detect_task_type message \<in>
     {''coding'', ''reasoning'', ''creative_writing'', ''long_context'', ''fast_responses'',
      ''default''}"
  by (simp add: detect_task_type_def Let_def)

lemma coding_keyword_wins:
  assumes "lower kw \<in> set code_keywords"
  shows "detect_task_type (pre @ kw @ post) = ''coding''"
proof -
  have "sublist (lower kw) (lower (pre @ kw @ post))"
    by (simp add: lower_append)
  with assms have "\<exists>k\<in>set code_keywords. sublist k (lower (pre @ kw @ post))"
    by blast
  then show ?thesis
    by (simp add: detect_task_type_cases)
qed

text \<open>
  C1.  The classifier returns one of the six categories for every message, and decides
  in strict priority order: a coding keyword in the lowercased message gives \<open>coding\<close>;
  else a math or logic keyword gives \<open>reasoning\<close>; else a creative-writing keyword gives
  \<open>creative_writing\<close>; else more than 4000 characters give \<open>long_context\<close>; else fewer
  than 50 characters with a question mark give \<open>fast_responses\<close>; else \<open>default\<close>.  In
  particular a message that contains a coding keyword, in any mix of upper and lower
  case, is \<open>coding\<close> whatever its length and whether or not it has a question mark.
\<close>

theorem detect_task_type_priority:
  "detect_task_type message \<in>
     {''coding'', ''reasoning'', ''creative_writing'', ''long_context'', ''fast_responses'',
      ''default''}
   \<and> detect_task_type message =
      (if \<exists>kw\<in>set code_keywords. sublist kw (lower message) then ''coding''
       else if \<exists>kw\<in>set math_keywords. sublist kw (lower message) then ''reasoning''
       else if \<exists>kw\<in>set creative_keywords. sublist kw (lower message) then ''creative_writing''
       else if 4000 < length message then ''long_context''
       else if length message < 50 \<and> CHR ''?'' \<in> set message then ''fast_responses''
       else ''default'')
   \<and> (\<forall>pre kw post. message = pre @ kw @ post \<and> lower kw \<in> set code_keywords
         \<longrightarrow> detect_task_type message = ''coding'')"
  using detect_task_type_range detect_task_type_cases coding_keyword_wins by blast

theorem detect_task_type_priority_witness:
  "''Fix this BUG?'' = ''Fix this '' @ ''BUG'' @ ''?'' \<and> lower ''BUG'' \<in> set code_keywords
   \<and> length ''Fix this BUG?'' < 50 \<and> CHR ''?'' \<in> set ''Fix this BUG?''
   \<and> detect_task_type ''Fix this BUG?'' = ''coding''"
proof -
  have a: "''Fix this BUG?'' = ''Fix this '' @ ''BUG'' @ ''?''" by simp
  have b: "lower ''BUG'' \<in> set code_keywords" by code_simp
  from a b detect_task_type_priority [of "''Fix this BUG?''"]
  have "detect_task_type ''Fix this BUG?'' = ''coding''" by blast
  with a b show ?thesis by simp
qed


subsection \<open>Registry lookup\<close>





lemma find_first: "x \<in> set xs \<Longrightarrow> P x \<Longrightarrow> \<exists>y. find P xs = Some y"
  by (induction xs) auto



lemma get_model_config_Inl:
  "get_model_config self model_id = Inl e \<Longrightarrow> e = ModelNotFound model_id"
  by (auto simp: get_model_config_def split: option.splits)

lemma get_model_config_moonshot:
  assumes "map_of (providers self) ''moonshot'' = Some p"
    and "map_of (catalog p) model_id = Some config"
  shows "get_model_config self model_id = Inr (resolved_config ''moonshot'' p config)"
  using assms by (simp add: get_model_config_def check_moonshot_def)

lemma get_model_config_cong:
  assumes "map_of (providers self') = map_of (providers self)"
  shows "get_model_config self' model_id = get_model_config self model_id"
proof -
  from assms have a: "check_moonshot self' model_id = check_moonshot self model_id"
    and b: "check_openrouter self' model_id = check_openrouter self model_id"
    by (simp_all add: check_moonshot_def check_openrouter_def)
  show ?thesis
    unfolding get_model_config_def a b by (rule refl)
qed

text \<open>
  C2 (as amended).  Lookup consults the provider named \<^verbatim>\<open>moonshot\<close> first and the provider
  named \<^verbatim>\<open>openrouter\<close> second, whatever the order in which the configuration lists the
  providers: a key of the \<^verbatim>\<open>moonshot\<close> catalog always resolves to the \<^verbatim>\<open>moonshot\<close>
  entry, also when another provider registers the same key, and two configurations
  with the same providers in a different order resolve every identifier alike.
\<close>

theorem moonshot_consulted_first:
  "(map_of (providers self) ''moonshot'' = Some p \<and> map_of (catalog p) model_id = Some config
      \<longrightarrow> get_model_config self model_id = Inr (resolved_config ''moonshot'' p config))
   \<and> (map_of (providers self') = map_of (providers self)
      \<longrightarrow> get_model_config self' model_id = get_model_config self model_id)"
proof (intro conjI impI)
  assume "map_of (providers self) ''moonshot'' = Some p \<and> map_of (catalog p) model_id = Some config"
  then have a: "map_of (providers self) ''moonshot'' = Some p"
    and b: "map_of (catalog p) model_id = Some config" by simp_all
  from get_model_config_moonshot [OF a b]
  show "get_model_config self model_id = Inr (resolved_config ''moonshot'' p config)" .
next
  assume "map_of (providers self') = map_of (providers self)"
  then show "get_model_config self' model_id = get_model_config self model_id"
    by (rule get_model_config_cong)
qed

lemma shared_key_lookup:
  "get_model_config shared_key_router ''shared'' =
     Inr [(''provider'', Plain (PStr ''moonshot'')),
          (''provider_config'', ProviderConfig moonshot_shared),
          (''id'', Plain (PStr ''moonshot-v1-8k''))]"
  by (simp add: get_model_config_def check_moonshot_def shared_key_router_def catalog_def
      moonshot_shared_def resolved_config_def dict_spread_def)

text \<open>
  C2 as stated fails: \<^verbatim>\<open>openrouter\<close> is registered first, both providers register the
  key \<^verbatim>\<open>shared\<close>, and lookup returns the entry of \<^verbatim>\<open>moonshot\<close>, registered second.
\<close>

theorem first_registered_provider_loses:
  "map fst (providers shared_key_router) = [''openrouter'', ''moonshot'']
   \<and> map_of (catalog openrouter_shared) ''shared'' = Some [(''id'', PStr ''vendor/model-a'')]
   \<and> get_model_config shared_key_router ''shared'' =
       Inr [(''provider'', Plain (PStr ''moonshot'')),
            (''provider_config'', ProviderConfig moonshot_shared),
            (''id'', Plain (PStr ''moonshot-v1-8k''))]"
  by (simp add: shared_key_lookup) (simp add: shared_key_router_def openrouter_shared_def catalog_def)

theorem moonshot_consulted_first_witness:
  "map_of (providers shared_key_router) ''moonshot'' = Some moonshot_shared
   \<and> map_of (catalog moonshot_shared) ''shared'' = Some [(''id'', PStr ''moonshot-v1-8k'')]
   \<and> map_of (providers shared_key_router_swapped) = map_of (providers shared_key_router)
   \<and> get_model_config shared_key_router ''shared'' =
       Inr (resolved_config ''moonshot'' moonshot_shared [(''id'', PStr ''moonshot-v1-8k'')])
   \<and> get_model_config shared_key_router_swapped ''shared'' =
       get_model_config shared_key_router ''shared''"
proof -
  have a: "map_of (providers shared_key_router) ''moonshot'' = Some moonshot_shared"
    by (simp add: shared_key_router_def)
  have b: "map_of (catalog moonshot_shared) ''shared'' = Some [(''id'', PStr ''moonshot-v1-8k'')]"
    by (simp add: catalog_def moonshot_shared_def)
  have c: "map_of (providers shared_key_router_swapped) = map_of (providers shared_key_router)"
    by (rule ext) (simp add: shared_key_router_def shared_key_router_swapped_def)
  from a b c
    moonshot_consulted_first [of shared_key_router moonshot_shared "''shared''"
      "[(''id'', PStr ''moonshot-v1-8k'')]" shared_key_router_swapped]
  show ?thesis by simp
qed

lemma get_model_config_openrouter:
  assumes "map_of (providers self) ''openrouter'' = Some p"
    and "(key, config) \<in> set (catalog p)"
    and "model_id = key \<or> map_of config ''id'' = Some (PStr model_id)"
  shows "\<exists>cfg. get_model_config self model_id = Inr cfg"
proof -
  let ?P = "\<lambda>(key, config). map_of config ''id'' = Some (PStr model_id) \<or> key = model_id"
  from assms(3) have "?P (key, config)" by auto
  from find_first [of "(key, config)" "catalog p" ?P, OF assms(2) this]
  obtain y where "find ?P (catalog p) = Some y" ..
  with assms(1) have "check_openrouter self model_id \<noteq> None"
    by (simp add: check_openrouter_def split: prod.splits)
  then show ?thesis
    by (cases "check_moonshot self model_id") (auto simp: get_model_config_def)
qed

lemma get_model_config_moonshot_key:
  assumes "map_of (providers self) ''moonshot'' = Some p"
    and "(key, config) \<in> set (catalog p)"
  shows "\<exists>cfg. get_model_config self key = Inr cfg"
proof -
  from assms(2) have "key \<in> fst ` set (catalog p)" by force
  then have "map_of (catalog p) key \<noteq> None"
    by (simp add: map_of_eq_None_iff)
  then obtain c where "map_of (catalog p) key = Some c" by auto
  from get_model_config_moonshot [OF assms(1) this] show ?thesis ..
qed

text \<open>
  C3 (as amended).  For the two providers that lookup consults: every catalog key of
  \<^verbatim>\<open>moonshot\<close> resolves, and every model of the \<^verbatim>\<open>openrouter\<close> catalog resolves both by
  its catalog key and by its \<^verbatim>\<open>id\<close> value.
\<close>

theorem lookup_by_key_or_id:
  "(map_of (providers self) ''moonshot'' = Some p \<and> (key, config) \<in> set (catalog p)
      \<longrightarrow> (\<exists>cfg. get_model_config self key = Inr cfg))
   \<and> (map_of (providers self) ''openrouter'' = Some p \<and> (key, config) \<in> set (catalog p)
        \<and> (model_id = key \<or> map_of config ''id'' = Some (PStr model_id))
      \<longrightarrow> (\<exists>cfg. get_model_config self model_id = Inr cfg))"
proof (intro conjI impI)
  assume "map_of (providers self) ''moonshot'' = Some p \<and> (key, config) \<in> set (catalog p)"
  then have a: "map_of (providers self) ''moonshot'' = Some p"
    and b: "(key, config) \<in> set (catalog p)" by simp_all
  from get_model_config_moonshot_key [OF a b]
  show "\<exists>cfg. get_model_config self key = Inr cfg" .
next
  assume "map_of (providers self) ''openrouter'' = Some p \<and> (key, config) \<in> set (catalog p)
        \<and> (model_id = key \<or> map_of config ''id'' = Some (PStr model_id))"
  then have a: "map_of (providers self) ''openrouter'' = Some p"
    and b: "(key, config) \<in> set (catalog p)"
    and c: "model_id = key \<or> map_of config ''id'' = Some (PStr model_id)" by simp_all
  from get_model_config_openrouter [OF a b c]
  show "\<exists>cfg. get_model_config self model_id = Inr cfg" .
qed

theorem lookup_by_key_or_id_witness:
  "map_of (providers three_provider_router) ''moonshot'' = Some moonshot_kimi
   \<and> (''kimi'', [(''id'', PStr ''moonshot-v1-128k''), (''max_tokens'', PInt 8192)])
        \<in> set (catalog moonshot_kimi)
   \<and> (\<exists>cfg. get_model_config three_provider_router ''kimi'' = Inr cfg)
   \<and> map_of (providers three_provider_router) ''openrouter'' = Some openrouter_claude
   \<and> (''sonnet'', [(''id'', PStr ''anthropic/claude-sonnet'')]) \<in> set (catalog openrouter_claude)
   \<and> map_of [(''id'', PStr ''anthropic/claude-sonnet'')] ''id''
        = Some (PStr ''anthropic/claude-sonnet'')
   \<and> (\<exists>cfg. get_model_config three_provider_router ''anthropic/claude-sonnet'' = Inr cfg)"
proof -
  have a: "map_of (providers three_provider_router) ''moonshot'' = Some moonshot_kimi"
    by (simp add: three_provider_router_def)
  have b: "(''kimi'', [(''id'', PStr ''moonshot-v1-128k''), (''max_tokens'', PInt 8192)])
             \<in> set (catalog moonshot_kimi)"
    by (simp add: catalog_def moonshot_kimi_def)
  have c: "map_of (providers three_provider_router) ''openrouter'' = Some openrouter_claude"
    by (simp add: three_provider_router_def)
  have d: "(''sonnet'', [(''id'', PStr ''anthropic/claude-sonnet'')])
             \<in> set (catalog openrouter_claude)"
    by (simp add: catalog_def openrouter_claude_def)
  have e: "map_of [(''id'', PStr ''anthropic/claude-sonnet'')] ''id''
             = Some (PStr ''anthropic/claude-sonnet'')"
    by simp
  from a b lookup_by_key_or_id [of three_provider_router moonshot_kimi "''kimi''"
      "[(''id'', PStr ''moonshot-v1-128k''), (''max_tokens'', PInt 8192)]"]
  have f: "\<exists>cfg. get_model_config three_provider_router ''kimi'' = Inr cfg"
    by simp
  from c d e lookup_by_key_or_id [of three_provider_router openrouter_claude "''sonnet''"
      "[(''id'', PStr ''anthropic/claude-sonnet'')]" "''anthropic/claude-sonnet''"]
  have g: "\<exists>cfg. get_model_config three_provider_router ''anthropic/claude-sonnet'' = Inr cfg"
    by simp
  from a b c d e f g show ?thesis by simp
qed

text \<open>
  C3 as stated fails twice: the model of the third provider \<^verbatim>\<open>acme\<close> resolves neither by
  its key nor by its identifier, and the \<^verbatim>\<open>moonshot\<close> model registered under \<^verbatim>\<open>kimi\<close>
  does not resolve by its identifier.
\<close>

theorem registered_models_not_found:
  "(''acme'', acme_provider) \<in> set (providers three_provider_router)
   \<and> (''acme-small'', [(''id'', PStr ''acme/small-1'')]) \<in> set (catalog acme_provider)
   \<and> get_model_config three_provider_router ''acme-small'' = Inl (ModelNotFound ''acme-small'')
   \<and> get_model_config three_provider_router ''acme/small-1'' = Inl (ModelNotFound ''acme/small-1'')
   \<and> (''moonshot'', moonshot_kimi) \<in> set (providers three_provider_router)
   \<and> (''kimi'', [(''id'', PStr ''moonshot-v1-128k''), (''max_tokens'', PInt 8192)])
        \<in> set (catalog moonshot_kimi)
   \<and> get_model_config three_provider_router ''moonshot-v1-128k''
        = Inl (ModelNotFound ''moonshot-v1-128k'')"
  by (simp add: three_provider_router_def acme_provider_def moonshot_kimi_def
      openrouter_claude_def catalog_def get_model_config_def check_moonshot_def
      check_openrouter_def)

subsection \<open>Selection\<close>


lemma get_model_config_not_Inr:
  assumes "\<forall>cfg. get_model_config self model_id \<noteq> Inr cfg"
  shows "get_model_config self model_id = Inl (ModelNotFound model_id)"
proof (cases "get_model_config self model_id")
  case (Inl e)
  with get_model_config_Inl [OF Inl] show ?thesis by simp
next
  case (Inr cfg)
  with assms show ?thesis by simp
qed

lemma select_model_override:
  "m \<noteq> [] \<Longrightarrow> select_model self message (Some m) = get_model_config self m"
  by (simp add: select_model_def)

lemma select_model_static:
  "\<not> dict_get (auto_switch self) ''enabled'' True \<Longrightarrow>
   select_model self message None = get_model_config self (default_model self)"
  by (simp add: select_model_def)

lemma select_model_auto:
  "dict_get (auto_switch self) ''enabled'' True \<Longrightarrow>
   select_model self message None =
     (case get_model_config self (primary_id self (detect_task_type message)) of
        Inr r \<Rightarrow> Inr r
      | Inl e \<Rightarrow> get_model_config self (fallback_id self (detect_task_type message)))"
  by (simp add: select_model_def Let_def)


text \<open>
  C4 (as amended).  For every message and every non-empty override, selection is the
  lookup of the override, whatever the text, the auto-switch setting and the routing
  policy; when the override does not resolve, selection fails with \<open>ModelNotFound\<close> for
  the override and nothing else is tried.
\<close>

theorem explicit_override_resolved_directly:
  "m \<noteq> [] \<Longrightarrow>
   select_model self message (Some m) = get_model_config self m
   \<and> ((\<forall>cfg. get_model_config self m \<noteq> Inr cfg)
        \<longrightarrow> select_model self message (Some m) = Inl (ModelNotFound m))"
  using get_model_config_not_Inr [of self m] by (simp add: select_model_override)

theorem explicit_override_resolved_directly_witness:
  "''unregistered-id'' \<noteq> []
   \<and> (\<forall>cfg. get_model_config three_provider_router ''unregistered-id'' \<noteq> Inr cfg)
   \<and> dict_get (auto_switch three_provider_router) ''enabled'' True
   \<and> select_model three_provider_router ''fix this bug'' (Some ''unregistered-id'')
        = Inl (ModelNotFound ''unregistered-id'')"
proof -
  have a: "''unregistered-id'' \<noteq> []" by simp
  have "get_model_config three_provider_router ''unregistered-id''
          = Inl (ModelNotFound ''unregistered-id'')"
    by code_simp
  then have b: "\<forall>cfg. get_model_config three_provider_router ''unregistered-id'' \<noteq> Inr cfg"
    by simp
  have c: "dict_get (auto_switch three_provider_router) ''enabled'' True"
    by code_simp
  from b explicit_override_resolved_directly
    [of "''unregistered-id''" three_provider_router "''fix this bug''", OF a]
  have d: "select_model three_provider_router ''fix this bug'' (Some ''unregistered-id'')
             = Inl (ModelNotFound ''unregistered-id'')"
    by (elim conjE impE)
  from a b c d show ?thesis by (intro conjI)
qed

text \<open>
  C4 as stated fails at the empty override: \<^verbatim>\<open>""\<close> does not resolve in the registry, yet
  selection does not fail; it routes the message as if no override were given.
\<close>

theorem empty_override_not_looked_up:
  "get_model_config three_provider_router '''' = Inl (ModelNotFound '''')
   \<and> select_model three_provider_router ''hello'' (Some '''') =
       Inr [(''provider'', Plain (PStr ''moonshot'')),
            (''provider_config'', ProviderConfig moonshot_kimi),
            (''id'', Plain (PStr ''moonshot-v1-128k'')),
            (''max_tokens'', Plain (PInt 8192))]"
  by code_simp

text \<open>
  C5.  With auto-switch disabled and no override, selection is the lookup of the default
  model identifier for every message, and fails with \<open>ModelNotFound\<close> for that identifier
  when it is not registered.
\<close>

theorem auto_switch_disabled_selects_default:
  "\<not> dict_get (auto_switch self) ''enabled'' True \<Longrightarrow>
   select_model self message None = get_model_config self (default_model self)
   \<and> ((\<forall>cfg. get_model_config self (default_model self) \<noteq> Inr cfg)
        \<longrightarrow> select_model self message None = Inl (ModelNotFound (default_model self)))"
  using get_model_config_not_Inr [of self "default_model self"]
  by (simp add: select_model_static)

theorem auto_switch_disabled_selects_default_witness:
  "\<not> dict_get (auto_switch static_router) ''enabled'' True
   \<and> detect_task_type ''fix this bug'' = ''coding''
   \<and> select_model static_router ''fix this bug'' None =
       Inr [(''provider'', Plain (PStr ''moonshot'')),
            (''provider_config'', ProviderConfig moonshot_kimi),
            (''id'', Plain (PStr ''moonshot-v1-128k'')),
            (''max_tokens'', Plain (PInt 8192))]
   \<and> \<not> dict_get (auto_switch (static_router\<lparr>default_model := ''gone''\<rparr>)) ''enabled'' True
   \<and> (\<forall>cfg. get_model_config (static_router\<lparr>default_model := ''gone''\<rparr>)
              (default_model (static_router\<lparr>default_model := ''gone''\<rparr>)) \<noteq> Inr cfg)
   \<and> select_model (static_router\<lparr>default_model := ''gone''\<rparr>) ''fix this bug'' None
        = Inl (ModelNotFound ''gone'')"
proof -
  let ?r = "static_router\<lparr>default_model := ''gone''\<rparr>"
  have a: "\<not> dict_get (auto_switch static_router) ''enabled'' True" by code_simp
  have b: "detect_task_type ''fix this bug'' = ''coding''" by code_simp
  have c: "get_model_config static_router (default_model static_router) =
       Inr [(''provider'', Plain (PStr ''moonshot'')),
            (''provider_config'', ProviderConfig moonshot_kimi),
            (''id'', Plain (PStr ''moonshot-v1-128k'')),
            (''max_tokens'', Plain (PInt 8192))]"
    by code_simp
  have d: "\<not> dict_get (auto_switch ?r) ''enabled'' True" by code_simp
  have "get_model_config ?r (default_model ?r) = Inl (ModelNotFound ''gone'')" by code_simp
  then have e: "\<forall>cfg. get_model_config ?r (default_model ?r) \<noteq> Inr cfg" by simp
  have f: "default_model ?r = ''gone''" by simp
  from c auto_switch_disabled_selects_default [of static_router "''fix this bug''", OF a]
  have g: "select_model static_router ''fix this bug'' None =
       Inr [(''provider'', Plain (PStr ''moonshot'')),
            (''provider_config'', ProviderConfig moonshot_kimi),
            (''id'', Plain (PStr ''moonshot-v1-128k'')),
            (''max_tokens'', Plain (PInt 8192))]"
    by simp
  from e auto_switch_disabled_selects_default [of ?r "''fix this bug''", OF d]
  have "select_model ?r ''fix this bug'' None = Inl (ModelNotFound (default_model ?r))"
    by (elim conjE impE)
  with f have h: "select_model ?r ''fix this bug'' None = Inl (ModelNotFound ''gone'')"
    by simp
  from a b g d e h show ?thesis by (intro conjI)
qed

lemma no_routing_entry:
  "map_of (task_routing self) task_type = None \<Longrightarrow>
   primary_id self task_type = default_model self
   \<and> fallback_id self task_type = default_model self"
  by (simp add: primary_id_def fallback_id_def dict_get_def)

text \<open>
  C6.  With auto-switch enabled and no override, selection reads the routing entry of
  the classified category (no entry: primary and fallback are both the default model
  identifier), looks the primary identifier up and returns its configuration; when that
  lookup fails it looks the fallback identifier up, once, and the outcome of that lookup
  is the outcome of selection: the fallback's configuration, or \<open>ModelNotFound\<close> for the
  fallback identifier.
\<close>

theorem primary_then_fallback:
  assumes "dict_get (auto_switch self) ''enabled'' True"
  shows "select_model self message None =
           (case get_model_config self (primary_id self (detect_task_type message)) of
              Inr r \<Rightarrow> Inr r
            | Inl e \<Rightarrow> get_model_config self (fallback_id self (detect_task_type message)))
         \<and> (map_of (task_routing self) (detect_task_type message) = None
              \<longrightarrow> primary_id self (detect_task_type message) = default_model self
                \<and> fallback_id self (detect_task_type message) = default_model self)
         \<and> (get_model_config self (primary_id self (detect_task_type message)) = Inr cfg
              \<longrightarrow> select_model self message None = Inr cfg)
         \<and> ((\<forall>c. get_model_config self (primary_id self (detect_task_type message)) \<noteq> Inr c)
              \<and> get_model_config self (fallback_id self (detect_task_type message)) = Inr cfg
              \<longrightarrow> select_model self message None = Inr cfg)
         \<and> ((\<forall>c. get_model_config self (primary_id self (detect_task_type message)) \<noteq> Inr c)
              \<and> (\<forall>c. get_model_config self (fallback_id self (detect_task_type message)) \<noteq> Inr c)
              \<longrightarrow> select_model self message None
                    = Inl (ModelNotFound (fallback_id self (detect_task_type message))))"
proof -
  let ?p = "primary_id self (detect_task_type message)"
  let ?f = "fallback_id self (detect_task_type message)"
  note sel = select_model_auto [OF assms, of message]
  have one: "get_model_config self ?p = Inr cfg \<Longrightarrow> select_model self message None = Inr cfg"
    by (simp add: sel)
  have two: "select_model self message None = get_model_config self ?f"
    if "\<forall>c. get_model_config self ?p \<noteq> Inr c"
    using that by (cases "get_model_config self ?p") (simp_all add: sel)
  have three: "select_model self message None = Inl (ModelNotFound ?f)"
    if "\<forall>c. get_model_config self ?p \<noteq> Inr c" "\<forall>c. get_model_config self ?f \<noteq> Inr c"
    using two [OF that(1)] get_model_config_not_Inr [OF that(2)] by simp
  from sel no_routing_entry one two three show ?thesis
    by (intro conjI impI) simp_all
qed

theorem primary_then_fallback_witness:
  "dict_get (auto_switch three_provider_router) ''enabled'' True
   \<and> (\<forall>c. get_model_config three_provider_router
              (primary_id three_provider_router (detect_task_type ''fix this bug'')) \<noteq> Inr c)
   \<and> get_model_config three_provider_router
        (fallback_id three_provider_router (detect_task_type ''fix this bug'')) =
       Inr [(''provider'', Plain (PStr ''openrouter'')),
            (''provider_config'', ProviderConfig openrouter_claude),
            (''id'', Plain (PStr ''anthropic/claude-sonnet''))]
   \<and> select_model three_provider_router ''fix this bug'' None =
       Inr [(''provider'', Plain (PStr ''openrouter'')),
            (''provider_config'', ProviderConfig openrouter_claude),
            (''id'', Plain (PStr ''anthropic/claude-sonnet''))]
   \<and> (\<forall>c. get_model_config three_provider_router
              (primary_id three_provider_router (detect_task_type ''solve x'')) \<noteq> Inr c)
   \<and> (\<forall>c. get_model_config three_provider_router
              (fallback_id three_provider_router (detect_task_type ''solve x'')) \<noteq> Inr c)
   \<and> select_model three_provider_router ''solve x'' None = Inl (ModelNotFound ''o-mini'')
   \<and> map_of (task_routing three_provider_router) (detect_task_type ''hello'') = None
   \<and> get_model_config three_provider_router
        (primary_id three_provider_router (detect_task_type ''hello'')) =
       Inr [(''provider'', Plain (PStr ''moonshot'')),
            (''provider_config'', ProviderConfig moonshot_kimi),
            (''id'', Plain (PStr ''moonshot-v1-128k'')),
            (''max_tokens'', Plain (PInt 8192))]
   \<and> select_model three_provider_router ''hello'' None =
       Inr [(''provider'', Plain (PStr ''moonshot'')),
            (''provider_config'', ProviderConfig moonshot_kimi),
            (''id'', Plain (PStr ''moonshot-v1-128k'')),
            (''max_tokens'', Plain (PInt 8192))]"
proof -
  let ?r = three_provider_router
  let ?sonnet = "[(''provider'', Plain (PStr ''openrouter'')),
            (''provider_config'', ProviderConfig openrouter_claude),
            (''id'', Plain (PStr ''anthropic/claude-sonnet''))]"
  let ?kimi = "[(''provider'', Plain (PStr ''moonshot'')),
            (''provider_config'', ProviderConfig moonshot_kimi),
            (''id'', Plain (PStr ''moonshot-v1-128k'')),
            (''max_tokens'', Plain (PInt 8192))]"
  have on: "dict_get (auto_switch ?r) ''enabled'' True" by code_simp
  have "get_model_config ?r (primary_id ?r (detect_task_type ''fix this bug''))
          = Inl (ModelNotFound ''gpt-coder'')"
    by code_simp
  then have a1: "\<forall>c. get_model_config ?r (primary_id ?r (detect_task_type ''fix this bug'')) \<noteq> Inr c"
    by simp
  have a2: "get_model_config ?r (fallback_id ?r (detect_task_type ''fix this bug'')) = Inr ?sonnet"
    by code_simp
  have "get_model_config ?r (primary_id ?r (detect_task_type ''solve x''))
          = Inl (ModelNotFound ''o-reasoner'')"
    by code_simp
  then have b1: "\<forall>c. get_model_config ?r (primary_id ?r (detect_task_type ''solve x'')) \<noteq> Inr c"
    by simp
  have "get_model_config ?r (fallback_id ?r (detect_task_type ''solve x''))
          = Inl (ModelNotFound ''o-mini'')"
    by code_simp
  then have b2: "\<forall>c. get_model_config ?r (fallback_id ?r (detect_task_type ''solve x'')) \<noteq> Inr c"
    by simp
  have b3: "fallback_id ?r (detect_task_type ''solve x'') = ''o-mini''" by code_simp
  have c1: "map_of (task_routing ?r) (detect_task_type ''hello'') = None" by code_simp
  have c2: "get_model_config ?r (primary_id ?r (detect_task_type ''hello'')) = Inr ?kimi"
    by code_simp
  from a1 a2 primary_then_fallback [OF on, of "''fix this bug''" ?sonnet]
  have a: "select_model ?r ''fix this bug'' None = Inr ?sonnet" by blast
  from b1 b2 primary_then_fallback [OF on, of "''solve x''"]
  have "select_model ?r ''solve x'' None
          = Inl (ModelNotFound (fallback_id ?r (detect_task_type ''solve x'')))"
    by blast
  with b3 have b: "select_model ?r ''solve x'' None = Inl (ModelNotFound ''o-mini'')" by simp
  from c2 primary_then_fallback [OF on, of "''hello''" ?kimi]
  have c: "select_model ?r ''hello'' None = Inr ?kimi" by blast
  from on a1 a2 a b1 b2 b c1 c2 c show ?thesis by (intro conjI)
qed


subsection \<open>Dispatch\<close>







subsection \<open>Stream decoding\<close>

lemma data_line_iff:
  "prefix ''data: '' line \<and> drop 6 line = payload \<longleftrightarrow> line = ''data: '' @ payload"
  by (auto simp: prefix_def)

lemma call_moonshot_stream_eq:
  "call_moonshot_stream loads lines =
     map (\<lambda>line. extract_content loads (drop 6 line))
       (takeWhile (\<lambda>line. line \<noteq> ''data: [DONE]'') (filter (prefix ''data: '') lines))"
proof (induction lines)
  case Nil
  show ?case by simp
next
  case (Cons line lines)
  show ?case
  proof (cases "prefix ''data: '' line")
    case False
    with Cons show ?thesis by simp
  next
    case True
    with data_line_iff [of line "''[DONE]''"]
    have "drop 6 line = ''[DONE]'' \<longleftrightarrow> line = ''data: [DONE]''" by simp
    with True Cons show ?thesis by (simp add: Let_def)
  qed
qed

lemma call_openrouter_stream_eq:
  "call_openrouter_stream loads lines =
     map (\<lambda>line. extract_content loads (drop 6 line))
       (takeWhile (\<lambda>line. line \<noteq> ''data: [DONE]'') (filter (prefix ''data: '') lines))"
proof (induction lines)
  case Nil
  show ?case by simp
next
  case (Cons line lines)
  show ?case
  proof (cases "prefix ''data: '' line")
    case False
    with Cons show ?thesis by simp
  next
    case True
    with data_line_iff [of line "''[DONE]''"]
    have "drop 6 line = ''[DONE]'' \<longleftrightarrow> line = ''data: [DONE]''" by simp
    with True Cons show ?thesis by (simp add: Let_def)
  qed
qed

lemma call_moonshot_stream_done:
  "call_moonshot_stream loads (before @ ''data: [DONE]'' # after) =
     call_moonshot_stream loads before"
  by (induction before) (simp_all add: Let_def)

lemma call_openrouter_stream_done:
  "call_openrouter_stream loads (before @ ''data: [DONE]'' # after) =
     call_openrouter_stream loads before"
  by (induction before) (simp_all add: Let_def)

lemma extract_parsed:
  "(case (case subscript_key parsed ''choices'' of
             Inl e \<Rightarrow> Inl e
           | Inr choices \<Rightarrow>
               (case subscript_0 choices of
                  Inl e \<Rightarrow> Inl e
                | Inr choice \<Rightarrow>
                    (case method_get choice ''delta'' (PDict []) of
                       Inl e \<Rightarrow> Inl e
                     | Inr delta \<Rightarrow> method_get delta ''content'' (PStr ''''))))
    of Inl e \<Rightarrow> PStr '''' | Inr v \<Rightarrow> v) =
   (case spec_content_field parsed of None \<Rightarrow> PStr '''' | Some v \<Rightarrow> v)"
proof (cases parsed)
  case (PDict obj)
  show ?thesis
  proof (cases "map_of obj ''choices''")
    case None
    with PDict show ?thesis by (simp add: spec_content_field_def)
  next
    case (Some choices)
    show ?thesis
    proof (cases "subscript_0 choices")
      case (Inl e)
      with PDict Some show ?thesis
        by (cases choices rule: subscript_0.cases) (simp_all add: spec_content_field_def)
    next
      case (Inr choice)
      with PDict Some show ?thesis
        by (cases choices rule: subscript_0.cases; cases choice)
          (auto simp: spec_content_field_def dict_get_def split: option.splits pyval.splits)
    qed
  qed
qed (simp_all add: spec_content_field_def)

lemma extract_content_eq:
  "extract_content loads data =
     (case loads data of
        None \<Rightarrow> PStr ''''
      | Some parsed \<Rightarrow> (case spec_content_field parsed of None \<Rightarrow> PStr '''' | Some v \<Rightarrow> v))"
proof (cases "loads data")
  case None
  then show ?thesis by (simp add: extract_content_def extract_content_try_def)
next
  case (Some parsed)
  with extract_parsed [of parsed] show ?thesis
    by (simp add: extract_content_def extract_content_try_def)
qed

lemma call_moonshot_stream_data:
  "data \<noteq> ''[DONE]'' \<Longrightarrow>
   call_moonshot_stream loads ((''data: '' @ data) # lines) =
     extract_content loads data # call_moonshot_stream loads lines"
  by simp

lemma call_openrouter_stream_data:
  "data \<noteq> ''[DONE]'' \<Longrightarrow>
   call_openrouter_stream loads ((''data: '' @ data) # lines) =
     extract_content loads data # call_openrouter_stream loads lines"
  by simp

text \<open>
  C7.  In both streaming loops the fragments are those of the lines that start with
  \<^verbatim>\<open>data: \<close>, taken up to the first line whose payload is \<^verbatim>\<open>[DONE]\<close>: other lines are
  skipped, the sentinel itself yields no fragment, and whatever follows the sentinel is
  never read, for every list of lines.
\<close>

theorem done_sentinel_ends_stream:
  "call_moonshot_stream loads lines =
     map (\<lambda>line. extract_content loads (drop 6 line))
       (takeWhile (\<lambda>line. line \<noteq> ''data: [DONE]'') (filter (prefix ''data: '') lines))
   \<and> call_openrouter_stream loads lines =
     map (\<lambda>line. extract_content loads (drop 6 line))
       (takeWhile (\<lambda>line. line \<noteq> ''data: [DONE]'') (filter (prefix ''data: '') lines))
   \<and> call_moonshot_stream loads (before @ ''data: [DONE]'' # after) =
       call_moonshot_stream loads before
   \<and> call_openrouter_stream loads (before @ ''data: [DONE]'' # after) =
       call_openrouter_stream loads before"
  by (intro conjI call_moonshot_stream_eq call_openrouter_stream_eq
      call_moonshot_stream_done call_openrouter_stream_done)

theorem done_sentinel_ends_stream_witness:
  "call_moonshot_stream sample_loads
     [''event: ping'', ''data: {\"choices\":[{\"delta\":{\"content\":\"Hi\"}}]}'',
      ''data: [DONE]'', ''data: {\"choices\":[{\"delta\":{\"content\":\"Hi\"}}]}'']
     = [PStr ''Hi'']
   \<and> call_openrouter_stream sample_loads
     [''event: ping'', ''data: {\"choices\":[{\"delta\":{\"content\":\"Hi\"}}]}'',
      ''data: [DONE]'', ''data: {\"choices\":[{\"delta\":{\"content\":\"Hi\"}}]}'']
     = [PStr ''Hi'']"
proof -
  let ?chunk = "''data: {\"choices\":[{\"delta\":{\"content\":\"Hi\"}}]}''"
  have a: "call_moonshot_stream sample_loads [''event: ping'', ?chunk] = [PStr ''Hi'']"
    by code_simp
  have b: "call_openrouter_stream sample_loads [''event: ping'', ?chunk] = [PStr ''Hi'']"
    by code_simp
  note inst = done_sentinel_ends_stream [of sample_loads _ "[''event: ping'', ?chunk]" "[?chunk]"]
  from inst [THEN conjunct2, THEN conjunct2, THEN conjunct1] a
  have c: "call_moonshot_stream sample_loads ([''event: ping'', ?chunk] @ ''data: [DONE]'' # [?chunk])
             = [PStr ''Hi'']"
    by (rule trans)
  from inst [THEN conjunct2, THEN conjunct2, THEN conjunct2] b
  have d: "call_openrouter_stream sample_loads ([''event: ping'', ?chunk] @ ''data: [DONE]'' # [?chunk])
             = [PStr ''Hi'']"
    by (rule trans)
  from c d show ?thesis by (simp only: append.simps) 
qed

text \<open>
  C8.  Content extraction returns a value for every payload and never raises: the value
  of the field \<^verbatim>\<open>choices[0].delta.content\<close> when the payload parses and has that field,
  the empty string when parsing fails or the field is absent.  In both loops a data
  line other than the sentinel yields exactly that fragment and the loop goes on with
  the lines that follow.
\<close>

theorem extract_content_total:
  "extract_content loads data =
     (case loads data of
        None \<Rightarrow> PStr ''''
      | Some parsed \<Rightarrow> (case spec_content_field parsed of None \<Rightarrow> PStr '''' | Some v \<Rightarrow> v))
   \<and> (data \<noteq> ''[DONE]'' \<longrightarrow>
        call_moonshot_stream loads ((''data: '' @ data) # lines) =
          extract_content loads data # call_moonshot_stream loads lines
        \<and> call_openrouter_stream loads ((''data: '' @ data) # lines) =
          extract_content loads data # call_openrouter_stream loads lines)"
  by (intro conjI impI extract_content_eq call_moonshot_stream_data call_openrouter_stream_data)

theorem extract_content_total_witness:
  "''not json'' \<noteq> ''[DONE]'' \<and> sample_loads ''not json'' = None
   \<and> extract_content sample_loads ''not json'' = PStr ''''
   \<and> call_moonshot_stream sample_loads
        [''data: not json'', ''data: {\"choices\":[{\"delta\":{\"content\":\"Hi\"}}]}'']
       = [PStr '''', PStr ''Hi'']
   \<and> call_openrouter_stream sample_loads
        [''data: not json'', ''data: {\"choices\":[{\"delta\":{\"content\":\"Hi\"}}]}'']
       = [PStr '''', PStr ''Hi'']
   \<and> extract_content sample_loads ''{\"choices\":[{\"delta\":{\"role\":\"assistant\"}}]}''
       = PStr ''''"
proof -
  let ?chunk = "''data: {\"choices\":[{\"delta\":{\"content\":\"Hi\"}}]}''"
  let ?role = "''{\"choices\":[{\"delta\":{\"role\":\"assistant\"}}]}''"
  have a: "''not json'' \<noteq> ''[DONE]''" by simp
  have b: "sample_loads ''not json'' = None" by code_simp
  have m: "call_moonshot_stream sample_loads [?chunk] = [PStr ''Hi'']" by code_simp
  have o: "call_openrouter_stream sample_loads [?chunk] = [PStr ''Hi'']" by code_simp
  have r: "sample_loads ?role
             = Some (PDict [(''choices'', PList [PDict [(''delta'', PDict [(''role'', PStr ''assistant'')])]])])"
    by code_simp
  have s: "spec_content_field
             (PDict [(''choices'', PList [PDict [(''delta'', PDict [(''role'', PStr ''assistant'')])]])])
           = None"
    by code_simp
  note inst = extract_content_total [of sample_loads "''not json''" "[?chunk]"]
  from inst [THEN conjunct1] b have c: "extract_content sample_loads ''not json'' = PStr ''''"
    by simp
  from inst [THEN conjunct2, THEN mp, OF a] c m o
  have d: "call_moonshot_stream sample_loads [''data: not json'', ?chunk] = [PStr '''', PStr ''Hi'']"
    and e: "call_openrouter_stream sample_loads [''data: not json'', ?chunk] = [PStr '''', PStr ''Hi'']"
    by simp_all
  from extract_content_total [of sample_loads ?role, THEN conjunct1] r s
  have f: "extract_content sample_loads ?role = PStr ''''"
    by simp
  from a b c d e f show ?thesis by (intro conjI)
qed

end
